theory Spec2Isabelle
  imports Main
begin

section \<open>Per-instance log verbosity: \<open>lib/sqlalchemy/log.py\<close>\<close>

text \<open>
  The module wraps Python's standard \<open>logging\<close> package. The package itself is not part
  of the module, so it appears here as an explicit state, \<open>backend\<close>, holding exactly the
  pieces the module reads or writes: the manager's \<open>disable\<close> threshold, each logger's
  effective level (the result of the hierarchy walk, whatever the hierarchy is), each
  logger's \<open>disabled\<close> flag and handler list, and the sequence of calls made to the
  low-level primitive \<open>Logger._log\<close>. A logger is identified by its dotted name, as in
  the registry behind \<open>logging.getLogger\<close>; a logger that was never asked for is in the
  state \<open>getLogger\<close> would create it in.
\<close>

subsection \<open>Level constants of the \<open>logging\<close> package\<close>

definition NOTSET :: int where "NOTSET = 0"
definition DEBUG :: int where "DEBUG = 10"
definition INFO :: int where "INFO = 20"
definition WARNING :: int where "WARNING = 30"
definition ERROR :: int where "ERROR = 40"
definition CRITICAL :: int where "CRITICAL = 50"

subsection \<open>Values and keyword arguments\<close>

text \<open>Positional message arguments (\<open>*args: Any\<close>) are carried through unchanged.\<close>

datatype pyobj = PyNone | PyBool bool | PyInt int | PyStr string

text \<open>
  The keyword arguments a log call may carry are those \<open>Logger._log\<close> accepts. A field
  is \<open>None\<close> when the key is absent from \<open>kwargs\<close>.
\<close>

record kwargs =
  exc_info :: "pyobj option"
  extra :: "(string \<times> pyobj) list option"
  stack_info :: "bool option"
  stacklevel :: "int option"

definition no_kwargs :: kwargs where
  "no_kwargs = \<lparr>exc_info = None, extra = None, stack_info = None, stacklevel = None\<rparr>"

subsection \<open>The logging backend\<close>

datatype py_logger = Logger string

datatype stream = Stdout | Stderr

text \<open>\<open>logging.StreamHandler(stream)\<close> with the format string of its formatter.\<close>

datatype handler = StreamHandler stream string

record log_call =
  call_logger :: py_logger
  call_level :: int
  call_msg :: string
  call_args :: "pyobj list"
  call_kwargs :: kwargs

record backend =
  manager_disable :: int
  effective_level :: "string \<Rightarrow> int"
  logger_disabled :: "string \<Rightarrow> bool"
  logger_handlers :: "string \<Rightarrow> handler list"
  log_calls :: "log_call list"

text \<open>\<open>logging.getLogger(name)\<close>: the shared logger of that name.\<close>

definition getLogger :: "string \<Rightarrow> py_logger" where
  "getLogger name = Logger name"

fun logger_name :: "py_logger \<Rightarrow> string" where
  "logger_name (Logger n) = n"

text \<open>\<open>Logger.getEffectiveLevel()\<close>, \<open>Logger.handlers\<close>, \<open>Logger.manager.disable\<close>.\<close>

definition Logger_getEffectiveLevel :: "py_logger \<Rightarrow> backend \<Rightarrow> int" where
  "Logger_getEffectiveLevel lg b = effective_level b (logger_name lg)"

definition Logger_handlers :: "py_logger \<Rightarrow> backend \<Rightarrow> handler list" where
  "Logger_handlers lg b = logger_handlers b (logger_name lg)"

text \<open>
  \<open>Logger.isEnabledFor(level)\<close> of the backend: false for a disabled logger, false under
  the manager's threshold, else the comparison with the effective level.
\<close>

definition Logger_isEnabledFor :: "py_logger \<Rightarrow> int \<Rightarrow> backend \<Rightarrow> bool" where
  "Logger_isEnabledFor lg level b =
     (if logger_disabled b (logger_name lg) then False
      else if manager_disable b \<ge> level then False
      else level \<ge> Logger_getEffectiveLevel lg b)"

text \<open>
  \<open>Logger.addHandler(hdlr)\<close> for a handler object that was just created (so it is not
  yet in the list): the handler is appended.
\<close>

definition Logger_addHandler :: "py_logger \<Rightarrow> handler \<Rightarrow> backend \<Rightarrow> backend" where
  "Logger_addHandler lg h b =
     b\<lparr>logger_handlers := (logger_handlers b)(logger_name lg := logger_handlers b (logger_name lg) @ [h])\<rparr>"

text \<open>
  \<open>Logger._log(level, msg, args, **kwargs)\<close>, the low-level emit primitive: it makes no
  level check of its own. The call is recorded.
\<close>

definition Logger_log_prim ::
  "py_logger \<Rightarrow> int \<Rightarrow> string \<Rightarrow> pyobj list \<Rightarrow> kwargs \<Rightarrow> backend \<Rightarrow> backend" where
  "Logger_log_prim lg level msg args kw b =
     b\<lparr>log_calls := log_calls b @
        [\<lparr>call_logger = lg, call_level = level, call_msg = msg, call_args = args,
          call_kwargs = kw\<rparr>]\<rparr>"

subsection \<open>Module constants\<close>

definition STACKLEVEL :: bool where "STACKLEVEL = True"

text \<open>
  \<open>STACKLEVEL_OFFSET = 2 if py311 else 1\<close>. The flag \<open>py311\<close> comes from the package's
  \<open>util\<close> module (the interpreter is Python 3.11 or later) and is a parameter here.
\<close>

definition STACKLEVEL_OFFSET :: "bool \<Rightarrow> int" where
  "STACKLEVEL_OFFSET py311 = (if py311 then 2 else 1)"

text \<open>\<open>_EchoFlagType = Union[None, bool, Literal["debug"]]\<close>\<close>

datatype EchoFlagType = EchoNone | EchoFalse | EchoTrue | EchoDebug

definition default_handler :: handler where
  "default_handler = StreamHandler Stdout ''%(asctime)s %(levelname)s %(name)s %(message)s''"

definition add_default_handler :: "py_logger \<Rightarrow> backend \<Rightarrow> backend" where
  "add_default_handler lg b = Logger_addHandler lg default_handler b"

subsection \<open>\<open>InstanceLogger\<close>\<close>

fun echo_map :: "EchoFlagType \<Rightarrow> int" where
  "echo_map EchoNone = NOTSET"
| "echo_map EchoFalse = NOTSET"
| "echo_map EchoTrue = INFO"
| "echo_map EchoDebug = DEBUG"

record InstanceLogger =
  echo :: EchoFlagType
  logger :: py_logger

text \<open>\<open>InstanceLogger.__init__(echo, name)\<close>: the new adapter and the backend after it.\<close>

definition InstanceLogger_init :: "EchoFlagType \<Rightarrow> string \<Rightarrow> backend \<Rightarrow> InstanceLogger \<times> backend" where
  "InstanceLogger_init e name b =
     (let self = \<lparr>echo = e, logger = getLogger name\<rparr> in
      if echo_map e \<le> INFO \<and> Logger_handlers (logger self) b = []
      then (self, add_default_handler (logger self) b)
      else (self, b))"

definition getEffectiveLevel :: "InstanceLogger \<Rightarrow> backend \<Rightarrow> int" where
  "getEffectiveLevel self b =
     (let level = echo_map (echo self) in
      if level = NOTSET then Logger_getEffectiveLevel (logger self) b else level)"

definition isEnabledFor :: "InstanceLogger \<Rightarrow> int \<Rightarrow> backend \<Rightarrow> bool" where
  "isEnabledFor self level b =
     (if manager_disable b \<ge> level then False
      else level \<ge> getEffectiveLevel self b)"

definition log ::
  "bool \<Rightarrow> InstanceLogger \<Rightarrow> int \<Rightarrow> string \<Rightarrow> pyobj list \<Rightarrow> kwargs \<Rightarrow> backend \<Rightarrow> backend" where
  "log py311 self level msg args kw b =
     (if manager_disable b \<ge> level then b
      else
        let selected_level = echo_map (echo self);
            selected_level =
              (if selected_level = NOTSET then Logger_getEffectiveLevel (logger self) b
               else selected_level)
        in
          if level \<ge> selected_level then
            let kw' =
              (if STACKLEVEL then
                 kw\<lparr>stacklevel :=
                   Some ((case stacklevel kw of None \<Rightarrow> 1 | Some s \<Rightarrow> s) + STACKLEVEL_OFFSET py311)\<rparr>
               else kw)
            in Logger_log_prim (logger self) level msg args kw' b
          else b)"

text \<open>The convenience methods delegate to \<open>log\<close>.\<close>

definition debug :: "bool \<Rightarrow> InstanceLogger \<Rightarrow> string \<Rightarrow> pyobj list \<Rightarrow> kwargs \<Rightarrow> backend \<Rightarrow> backend" where
  "debug py311 self msg args kw b = log py311 self DEBUG msg args kw b"

definition info :: "bool \<Rightarrow> InstanceLogger \<Rightarrow> string \<Rightarrow> pyobj list \<Rightarrow> kwargs \<Rightarrow> backend \<Rightarrow> backend" where
  "info py311 self msg args kw b = log py311 self INFO msg args kw b"

definition warning :: "bool \<Rightarrow> InstanceLogger \<Rightarrow> string \<Rightarrow> pyobj list \<Rightarrow> kwargs \<Rightarrow> backend \<Rightarrow> backend" where
  "warning py311 self msg args kw b = log py311 self WARNING msg args kw b"

definition error :: "bool \<Rightarrow> InstanceLogger \<Rightarrow> string \<Rightarrow> pyobj list \<Rightarrow> kwargs \<Rightarrow> backend \<Rightarrow> backend" where
  "error py311 self msg args kw b = log py311 self ERROR msg args kw b"

definition exception :: "bool \<Rightarrow> InstanceLogger \<Rightarrow> string \<Rightarrow> pyobj list \<Rightarrow> kwargs \<Rightarrow> backend \<Rightarrow> backend" where
  "exception py311 self msg args kw b =
     log py311 self ERROR msg args (kw\<lparr>exc_info := Some (PyInt 1)\<rparr>) b"

definition critical :: "bool \<Rightarrow> InstanceLogger \<Rightarrow> string \<Rightarrow> pyobj list \<Rightarrow> kwargs \<Rightarrow> backend \<Rightarrow> backend" where
  "critical py311 self msg args kw b = log py311 self CRITICAL msg args kw b"

subsection \<open>Classes and instances\<close>

text \<open>
  \<open>class_logger\<close> assigns two lambdas to the class; each closes over the class-wide logger
  and calls its \<open>isEnabledFor\<close> with a fixed level. A method slot of a class therefore
  holds either the method inherited from \<open>Identified\<close> or such a closure, given by the
  logger and the level it captured.
\<close>

datatype should_log_impl = Identified_method | class_logger_lambda py_logger int

text \<open>
  A class object: \<open>__module__\<close>, \<open>__name__\<close>, the attribute \<open>_sqla_logger_namespace\<close>
  (\<open>None\<close> when the class does not have it), the class attribute \<open>logger\<close> (\<open>None\<close> until
  \<open>class_logger\<close> sets it) and the two method slots.
\<close>

record py_class =
  cls_module :: string
  cls_name :: string
  sqla_logger_namespace :: "string option"
  cls_logger :: "py_logger option"
  cls_should_log_debug :: should_log_impl
  cls_should_log_info :: should_log_impl

text \<open>\<open>_IdentifiedLoggerType = Union[logging.Logger, "InstanceLogger"]\<close>\<close>

datatype IdentifiedLoggerType = Direct py_logger | Adapter InstanceLogger

text \<open>
  An instance of a subclass of \<open>Identified\<close>: its class, \<open>logging_name\<close>, and the
  attributes \<open>logger\<close> and \<open>_echo\<close>, which have no value until \<open>instance_logger\<close> assigns
  them.
\<close>

record Identified =
  inst_class :: py_class
  logging_name :: "string option"
  inst_logger :: "IdentifiedLoggerType option"
  inst_echo :: "EchoFlagType option"

datatype py_error = AttributeError

text \<open>
  \<open>getattr(cls, "_sqla_logger_namespace", None) or cls.__module__ + "." + cls.__name__\<close>:
  Python's \<open>or\<close> takes the right operand when the left one is \<open>None\<close> or the empty string.
\<close>

definition qual_logger_name_for_cls :: "py_class \<Rightarrow> string" where
  "qual_logger_name_for_cls cls =
     (case sqla_logger_namespace cls of
        None \<Rightarrow> cls_module cls @ ''.'' @ cls_name cls
      | Some ns \<Rightarrow> if ns = [] then cls_module cls @ ''.'' @ cls_name cls else ns)"

text \<open>
  \<open>class_logger(cls)\<close>, with the module-level set \<open>_logged_classes\<close> passed in and
  returned.
\<close>

definition class_logger :: "py_class \<Rightarrow> py_class set \<Rightarrow> py_class \<times> py_class set" where
  "class_logger cls logged_classes =
     (let lg = getLogger (qual_logger_name_for_cls cls);
          cls' = cls\<lparr>cls_should_log_debug := class_logger_lambda lg DEBUG,
                     cls_should_log_info := class_logger_lambda lg INFO,
                     cls_logger := Some lg\<rparr>
      in (cls', insert cls' logged_classes))"

text \<open>
  Reading \<open>self.logger\<close>: the instance's own attribute, else the class attribute, else
  \<open>AttributeError\<close>.
\<close>

definition self_logger :: "Identified \<Rightarrow> py_error + IdentifiedLoggerType" where
  "self_logger self =
     (case inst_logger self of
        Some l \<Rightarrow> Inr l
      | None \<Rightarrow>
          (case cls_logger (inst_class self) of
             Some lg \<Rightarrow> Inr (Direct lg)
           | None \<Rightarrow> Inl AttributeError))"

text \<open>\<open>l.isEnabledFor(level)\<close> on either kind of logger binding.\<close>

fun binding_isEnabledFor :: "IdentifiedLoggerType \<Rightarrow> int \<Rightarrow> backend \<Rightarrow> bool" where
  "binding_isEnabledFor (Direct lg) level b = Logger_isEnabledFor lg level b"
| "binding_isEnabledFor (Adapter il) level b = isEnabledFor il level b"

definition Identified_should_log_debug :: "Identified \<Rightarrow> backend \<Rightarrow> py_error + bool" where
  "Identified_should_log_debug self b =
     (case self_logger self of
        Inl e \<Rightarrow> Inl e
      | Inr l \<Rightarrow> Inr (binding_isEnabledFor l DEBUG b))"

definition Identified_should_log_info :: "Identified \<Rightarrow> backend \<Rightarrow> py_error + bool" where
  "Identified_should_log_info self b =
     (case self_logger self of
        Inl e \<Rightarrow> Inl e
      | Inr l \<Rightarrow> Inr (binding_isEnabledFor l INFO b))"

text \<open>
  The calls \<open>self._should_log_debug()\<close> and \<open>self._should_log_info()\<close>: whatever the
  class's slot holds is applied to the instance.
\<close>

definition should_log_debug :: "Identified \<Rightarrow> backend \<Rightarrow> py_error + bool" where
  "should_log_debug self b =
     (case cls_should_log_debug (inst_class self) of
        Identified_method \<Rightarrow> Identified_should_log_debug self b
      | class_logger_lambda lg level \<Rightarrow> Inr (Logger_isEnabledFor lg level b))"

definition should_log_info :: "Identified \<Rightarrow> backend \<Rightarrow> py_error + bool" where
  "should_log_info self b =
     (case cls_should_log_info (inst_class self) of
        Identified_method \<Rightarrow> Identified_should_log_info self b
      | class_logger_lambda lg level \<Rightarrow> Inr (Logger_isEnabledFor lg level b))"

subsection \<open>\<open>instance_logger\<close> and \<open>echo_property\<close>\<close>

text \<open>The name \<open>instance_logger\<close> computes; \<open>if instance.logging_name\<close> is false for
  \<open>None\<close> and for the empty string.\<close>

definition instance_name :: "Identified \<Rightarrow> string" where
  "instance_name instance =
     (case logging_name instance of
        None \<Rightarrow> qual_logger_name_for_cls (inst_class instance)
      | Some ln \<Rightarrow>
          if ln \<noteq> [] then qual_logger_name_for_cls (inst_class instance) @ ''.'' @ ln
          else qual_logger_name_for_cls (inst_class instance))"

definition instance_logger :: "Identified \<Rightarrow> EchoFlagType \<Rightarrow> backend \<Rightarrow> Identified \<times> backend" where
  "instance_logger instance echoflag b =
     (let name = instance_name instance;
          instance = instance\<lparr>inst_echo := Some echoflag\<rparr>
      in
        if echoflag = EchoFalse \<or> echoflag = EchoNone then
          (instance\<lparr>inst_logger := Some (Direct (getLogger name))\<rparr>, b)
        else
          (case InstanceLogger_init echoflag name b of
             (il, b') \<Rightarrow> (instance\<lparr>inst_logger := Some (Adapter il)\<rparr>, b')))"

text \<open>
  \<open>echo_property.__get__(instance, owner)\<close> returns the descriptor itself when there is
  no instance, else \<open>instance._echo\<close>; \<open>echo_property.__set__\<close> calls \<open>instance_logger\<close>.
\<close>

datatype get_result = Descriptor | EchoValue EchoFlagType

definition echo_property_get :: "Identified option \<Rightarrow> py_error + get_result" where
  "echo_property_get instance =
     (case instance of
        None \<Rightarrow> Inr Descriptor
      | Some i \<Rightarrow>
          (case inst_echo i of
             None \<Rightarrow> Inl AttributeError
           | Some e \<Rightarrow> Inr (EchoValue e)))"

definition echo_property_set :: "Identified \<Rightarrow> EchoFlagType \<Rightarrow> backend \<Rightarrow> Identified \<times> backend" where
  "echo_property_set instance v b = instance_logger instance v b"

subsection \<open>Sequences of constructions\<close>

text \<open>
  Building one adapter after another, \<open>InstanceLogger(e, name)\<close> for each pair of the
  list in order, each on the backend the previous one left.
\<close>

fun build_adapters :: "(EchoFlagType \<times> string) list \<Rightarrow> backend \<Rightarrow> backend" where
  "build_adapters [] b = b"
| "build_adapters ((e, name) # rest) b = build_adapters rest (snd (InstanceLogger_init e name b))"

subsection \<open>Concrete states used to instantiate the theorems\<close>

text \<open>
  The backend right after the package is imported and nothing else is configured:
  nothing suppressed by the manager, every logger resolving to \<open>WARNING\<close>, no logger
  disabled, no handler attached, no call made.
\<close>

definition fresh_backend :: backend where
  "fresh_backend =
     \<lparr>manager_disable = 0, effective_level = (\<lambda>_. WARNING), logger_disabled = (\<lambda>_. False),
      logger_handlers = (\<lambda>_. []), log_calls = []\<rparr>"

text \<open>A class that declares a namespace, one that does not, and one that declares the
  empty string.\<close>

definition Engine_class :: py_class where
  "Engine_class =
     \<lparr>cls_module = ''sqlalchemy.engine.base'', cls_name = ''Engine'',
      sqla_logger_namespace = Some ''sqlalchemy.engine.Engine'', cls_logger = None,
      cls_should_log_debug = Identified_method, cls_should_log_info = Identified_method\<rparr>"



text \<open>An instance that \<open>instance_logger\<close> has not been called on yet.\<close>

definition new_instance :: "py_class \<Rightarrow> string option \<Rightarrow> Identified" where
  "new_instance cls label =
     \<lparr>inst_class = cls, logging_name = label, inst_logger = None, inst_echo = None\<rparr>"

section \<open>Properties\<close>

lemmas level_defs = NOTSET_def DEBUG_def INFO_def WARNING_def ERROR_def CRITICAL_def

text \<open>
  C1. When the level is not globally suppressed (the manager's \<open>disable\<close> is below it),
  \<open>log\<close> forwards to \<open>Logger._log\<close> of the wrapped logger, with no further level check
  by the backend, exactly when the level is at least the selected level; otherwise the
  backend is left as it was. The selected level is \<open>INFO\<close> for echo \<open>True\<close>, \<open>DEBUG\<close>
  for echo \<open>"debug"\<close>, and the backend logger's own effective level for echo \<open>None\<close> or
  \<open>False\<close>.
\<close>

theorem log_forwards_iff_level_selected:
  assumes "manager_disable b < level"
  shows "log py311 self level msg args kw b =
      (if level \<ge> (case echo self of
                      EchoNone \<Rightarrow> Logger_getEffectiveLevel (logger self) b
                    | EchoFalse \<Rightarrow> Logger_getEffectiveLevel (logger self) b
                    | EchoTrue \<Rightarrow> INFO
                    | EchoDebug \<Rightarrow> DEBUG)
       then Logger_log_prim (logger self) level msg args
              (kw\<lparr>stacklevel := Some ((case stacklevel kw of None \<Rightarrow> 1 | Some s \<Rightarrow> s)
                                        + STACKLEVEL_OFFSET py311)\<rparr>) b
       else b)
    \<and> (log_calls (log py311 self level msg args kw b) \<noteq> log_calls b) =
      (level \<ge> (case echo self of
                      EchoNone \<Rightarrow> Logger_getEffectiveLevel (logger self) b
                    | EchoFalse \<Rightarrow> Logger_getEffectiveLevel (logger self) b
                    | EchoTrue \<Rightarrow> INFO
                    | EchoDebug \<Rightarrow> DEBUG))"
proof (cases "echo self")
  case EchoNone
  with assms show ?thesis
    by (simp add: log_def Logger_log_prim_def STACKLEVEL_def level_defs)
next
  case EchoFalse
  with assms show ?thesis
    by (simp add: log_def Logger_log_prim_def STACKLEVEL_def level_defs)
next
  case EchoTrue
  with assms show ?thesis
    by (simp add: log_def Logger_log_prim_def STACKLEVEL_def level_defs)
next
  case EchoDebug
  with assms show ?thesis
    by (simp add: log_def Logger_log_prim_def STACKLEVEL_def level_defs)
qed

theorem log_forwards_iff_level_selected_witness:
  "manager_disable fresh_backend < INFO \<and>
   log True \<lparr>echo = EchoTrue, logger = Logger ''sqlalchemy.engine.Engine''\<rparr> INFO ''BEGIN'' []
       no_kwargs fresh_backend =
     fresh_backend\<lparr>log_calls :=
       [\<lparr>call_logger = Logger ''sqlalchemy.engine.Engine'', call_level = INFO,
         call_msg = ''BEGIN'', call_args = [], call_kwargs = no_kwargs\<lparr>stacklevel := Some 3\<rparr>\<rparr>]\<rparr> \<and>
   log True \<lparr>echo = EchoFalse, logger = Logger ''sqlalchemy.engine.Engine''\<rparr> INFO ''BEGIN'' []
       no_kwargs fresh_backend = fresh_backend"
  using log_forwards_iff_level_selected
      [of fresh_backend INFO True
         "\<lparr>echo = EchoTrue, logger = Logger ''sqlalchemy.engine.Engine''\<rparr>"
         "''BEGIN''" "[]" no_kwargs]
    log_forwards_iff_level_selected
      [of fresh_backend INFO True
         "\<lparr>echo = EchoFalse, logger = Logger ''sqlalchemy.engine.Engine''\<rparr>"
         "''BEGIN''" "[]" no_kwargs]
  by (simp add: fresh_backend_def no_kwargs_def Logger_log_prim_def Logger_getEffectiveLevel_def
      STACKLEVEL_OFFSET_def level_defs)

text \<open>
  C2. When the manager's \<open>disable\<close> threshold is at or above the level, \<open>log\<close> returns at
  once and leaves the backend as it was, whatever the echo value of the adapter, and
  \<open>isEnabledFor\<close> answers false: the suppression test comes before the echo override is
  looked at.
\<close>

theorem log_suppressed_is_noop:
  assumes "manager_disable b \<ge> level"
  shows "log py311 self level msg args kw b = b \<and> \<not> isEnabledFor self level b"
  using assms by (simp add: log_def isEnabledFor_def)

theorem log_suppressed_is_noop_witness:
  "manager_disable (fresh_backend\<lparr>manager_disable := CRITICAL\<rparr>) \<ge> DEBUG \<and>
   log False \<lparr>echo = EchoDebug, logger = Logger ''sqlalchemy.engine.Engine''\<rparr> DEBUG ''row'' []
       no_kwargs (fresh_backend\<lparr>manager_disable := CRITICAL\<rparr>) =
     fresh_backend\<lparr>manager_disable := CRITICAL\<rparr> \<and>
   \<not> isEnabledFor \<lparr>echo = EchoDebug, logger = Logger ''sqlalchemy.engine.Engine''\<rparr> DEBUG
       (fresh_backend\<lparr>manager_disable := CRITICAL\<rparr>)"
  using log_suppressed_is_noop
      [of DEBUG "fresh_backend\<lparr>manager_disable := CRITICAL\<rparr>" False
         "\<lparr>echo = EchoDebug, logger = Logger ''sqlalchemy.engine.Engine''\<rparr>"
         "''row''" "[]" no_kwargs]
  by (simp add: fresh_backend_def level_defs)

text \<open>
  C3. The echo-to-level map is defined on all four echo values: \<open>None\<close> and \<open>False\<close> give
  \<open>NOTSET\<close> (no override), \<open>True\<close> gives \<open>INFO\<close>, \<open>"debug"\<close> gives \<open>DEBUG\<close>. So
  \<open>getEffectiveLevel\<close> is exactly \<open>DEBUG\<close> for echo \<open>"debug"\<close>, and the backend logger's
  own effective level for echo \<open>None\<close> or \<open>False\<close>.
\<close>

theorem echo_map_total_and_effective_level:
  "echo_map EchoNone = NOTSET \<and> echo_map EchoFalse = NOTSET \<and>
   echo_map EchoTrue = INFO \<and> echo_map EchoDebug = DEBUG \<and>
   getEffectiveLevel \<lparr>echo = EchoDebug, logger = lg\<rparr> b = DEBUG \<and>
   getEffectiveLevel \<lparr>echo = EchoNone, logger = lg\<rparr> b = Logger_getEffectiveLevel lg b \<and>
   getEffectiveLevel \<lparr>echo = EchoFalse, logger = lg\<rparr> b = Logger_getEffectiveLevel lg b"
  by (simp add: getEffectiveLevel_def level_defs)

text \<open>
  C4. As stated, for every adapter with echo \<open>True\<close>, \<open>isEnabledFor(INFO)\<close> would be true
  whatever the backend holds. It is false once the manager's \<open>disable\<close> threshold reaches
  \<open>INFO\<close> (after \<open>logging.disable(logging.INFO)\<close>), since \<open>isEnabledFor\<close> tests the
  threshold first.
\<close>

theorem echo_true_enabled_for_info_counterexample:
  "\<not> isEnabledFor \<lparr>echo = EchoTrue, logger = Logger ''sqlalchemy.engine.Engine''\<rparr> INFO
       (fresh_backend\<lparr>manager_disable := INFO\<rparr>)"
  by (simp add: isEnabledFor_def fresh_backend_def)

text \<open>
  C4, amended. For every adapter with echo \<open>True\<close>, as long as the manager's \<open>disable\<close>
  threshold is below \<open>INFO\<close>, \<open>isEnabledFor(INFO)\<close> is true whatever the effective level
  of the backend logger is (\<open>WARNING\<close> or higher included).
\<close>

theorem echo_true_enabled_for_info:
  assumes "manager_disable b < INFO"
  shows "isEnabledFor \<lparr>echo = EchoTrue, logger = lg\<rparr> INFO (b\<lparr>effective_level := ambient\<rparr>)"
  using assms by (simp add: isEnabledFor_def getEffectiveLevel_def level_defs)

theorem echo_true_enabled_for_info_witness:
  "manager_disable fresh_backend < INFO \<and>
   Logger_getEffectiveLevel (Logger ''sqlalchemy.engine.Engine'')
     (fresh_backend\<lparr>effective_level := (\<lambda>_. ERROR)\<rparr>) = ERROR \<and>
   isEnabledFor \<lparr>echo = EchoTrue, logger = Logger ''sqlalchemy.engine.Engine''\<rparr> INFO
     (fresh_backend\<lparr>effective_level := (\<lambda>_. ERROR)\<rparr>)"
  using echo_true_enabled_for_info
      [where b = fresh_backend and lg = "Logger ''sqlalchemy.engine.Engine''"
         and ambient = "\<lambda>_. ERROR"]
  by (simp add: fresh_backend_def Logger_getEffectiveLevel_def level_defs)

text \<open>
  What one construction does to the handler list of any logger: the default handler is
  attached to the named logger when that logger has no handler, and nothing else changes.
\<close>

lemma echo_map_le_INFO: "echo_map e \<le> INFO"
  by (cases e) (simp_all add: level_defs)

lemma InstanceLogger_init_handlers:
  "logger_handlers (snd (InstanceLogger_init e name b)) n =
     (if n = name \<and> logger_handlers b name = [] then [default_handler] else logger_handlers b n)"
  by (simp add: InstanceLogger_init_def echo_map_le_INFO Logger_handlers_def getLogger_def
      add_default_handler_def Logger_addHandler_def Let_def)

lemma InstanceLogger_init_unchanged:
  "logger_handlers b name \<noteq> [] \<Longrightarrow> snd (InstanceLogger_init e name b) = b"
  by (simp add: InstanceLogger_init_def Logger_handlers_def getLogger_def Let_def)

lemma build_adapters_handlers:
  "logger_handlers (build_adapters es b) n = logger_handlers b n \<or>
   (logger_handlers b n = [] \<and> logger_handlers (build_adapters es b) n = [default_handler])"
proof (induction es arbitrary: b)
  case Nil
  show ?case by simp
next
  case (Cons x es)
  obtain e name where x: "x = (e, name)" by (cases x)
  let ?b1 = "snd (InstanceLogger_init e name b)"
  have step: "logger_handlers ?b1 n =
      (if n = name \<and> logger_handlers b name = [] then [default_handler] else logger_handlers b n)"
    by (rule InstanceLogger_init_handlers)
  from Cons.IH [of ?b1]
  have ih: "logger_handlers (build_adapters es ?b1) n = logger_handlers ?b1 n \<or>
      (logger_handlers ?b1 n = [] \<and> logger_handlers (build_adapters es ?b1) n = [default_handler])" .
  show ?case
  proof (cases "n = name \<and> logger_handlers b name = []")
    case True
    with step have "logger_handlers ?b1 n = [default_handler]" by simp
    with ih have "logger_handlers (build_adapters es ?b1) n = [default_handler]" by auto
    with True x show ?thesis by simp
  next
    case False
    with step have "logger_handlers ?b1 n = logger_handlers b n" by simp
    with ih x show ?thesis by simp
  qed
qed

text \<open>
  C5. Building an adapter with echo \<open>True\<close> on a namespace whose logger has no handler
  leaves that logger with exactly the one default handler; building a second adapter
  with echo \<open>True\<close> or \<open>"debug"\<close> on the same namespace then changes nothing in the
  backend. And over any sequence of constructions, on any namespaces with any echo
  values and from any backend, every logger either keeps the handlers it had or had none
  and ends with the single default handler: no namespace gets the default handler twice.
\<close>

theorem default_handler_attached_at_most_once:
  assumes "logger_handlers b name = []"
    and "e = EchoTrue \<or> e = EchoDebug"
  shows "logger_handlers (snd (InstanceLogger_init EchoTrue name b)) name = [default_handler] \<and>
    snd (InstanceLogger_init e name (snd (InstanceLogger_init EchoTrue name b))) =
      snd (InstanceLogger_init EchoTrue name b) \<and>
    (logger_handlers (build_adapters es b0) n = logger_handlers b0 n \<or>
     (logger_handlers b0 n = [] \<and> logger_handlers (build_adapters es b0) n = [default_handler]))"
proof -
  have first: "logger_handlers (snd (InstanceLogger_init EchoTrue name b)) name = [default_handler]"
    using assms(1) by (simp add: InstanceLogger_init_handlers)
  then have "logger_handlers (snd (InstanceLogger_init EchoTrue name b)) name \<noteq> []"
    by simp
  then have second: "snd (InstanceLogger_init e name (snd (InstanceLogger_init EchoTrue name b))) =
      snd (InstanceLogger_init EchoTrue name b)"
    by (rule InstanceLogger_init_unchanged)
  from first second build_adapters_handlers [of es b0 n] show ?thesis by blast
qed

theorem default_handler_attached_at_most_once_witness:
  "logger_handlers fresh_backend ''sqlalchemy.engine.Engine'' = [] \<and>
   logger_handlers (snd (InstanceLogger_init EchoTrue ''sqlalchemy.engine.Engine'' fresh_backend))
     ''sqlalchemy.engine.Engine'' = [default_handler] \<and>
   snd (InstanceLogger_init EchoDebug ''sqlalchemy.engine.Engine''
         (snd (InstanceLogger_init EchoTrue ''sqlalchemy.engine.Engine'' fresh_backend))) =
     snd (InstanceLogger_init EchoTrue ''sqlalchemy.engine.Engine'' fresh_backend) \<and>
   logger_handlers
     (build_adapters [(EchoTrue, ''sqlalchemy.engine.Engine''), (EchoDebug, ''sqlalchemy.engine.Engine''),
                      (EchoTrue, ''sqlalchemy.engine.Engine'')] fresh_backend)
     ''sqlalchemy.engine.Engine'' = [default_handler]"
proof -
  have h: "logger_handlers fresh_backend ''sqlalchemy.engine.Engine'' = []"
    by (simp add: fresh_backend_def)
  have three: "logger_handlers
     (build_adapters [(EchoTrue, ''sqlalchemy.engine.Engine''), (EchoDebug, ''sqlalchemy.engine.Engine''),
                      (EchoTrue, ''sqlalchemy.engine.Engine'')] fresh_backend)
     ''sqlalchemy.engine.Engine'' = [default_handler]"
    by (simp add: InstanceLogger_init_handlers h)
  from default_handler_attached_at_most_once [OF h, of EchoDebug] h three show ?thesis
    by simp
qed

text \<open>The name of an instance depends on its class and label only.\<close>

lemma instance_name_ignores_binding:
  "instance_name (i\<lparr>inst_logger := l0, inst_echo := e0\<rparr>) = instance_name i"
  by (simp add: instance_name_def split: option.splits)

text \<open>
  C6. After \<open>instance_logger\<close>, and so after every write through \<open>echo_property\<close>, the
  instance's \<open>logger\<close> attribute holds one binding: the backend logger of the instance's
  name itself when the echo value written is \<open>None\<close> or \<open>False\<close>, and otherwise an
  \<open>InstanceLogger\<close> holding that echo value and that logger. It is a direct logger exactly
  for \<open>None\<close> and \<open>False\<close> and an adapter exactly for the other values. The binding is
  built anew: what the \<open>logger\<close> and \<open>_echo\<close> attributes held before has no influence.
\<close>

theorem exactly_one_binding_after_write:
  "inst_logger (fst (instance_logger instance v b)) =
     Some (if v = EchoNone \<or> v = EchoFalse then Direct (getLogger (instance_name instance))
           else Adapter \<lparr>echo = v, logger = getLogger (instance_name instance)\<rparr>) \<and>
   echo_property_set instance v b = instance_logger instance v b \<and>
   (\<exists>lg. inst_logger (fst (echo_property_set instance v b)) = Some (Direct lg)) =
     (v = EchoNone \<or> v = EchoFalse) \<and>
   (\<exists>il. inst_logger (fst (echo_property_set instance v b)) = Some (Adapter il) \<and> echo il = v) =
     (v \<noteq> EchoNone \<and> v \<noteq> EchoFalse) \<and>
   fst (echo_property_set (instance\<lparr>inst_logger := l0, inst_echo := e0\<rparr>) v b) =
     fst (echo_property_set instance v b)"
  by (cases v)
    (simp_all add: echo_property_set_def instance_logger_def instance_name_ignores_binding
      InstanceLogger_init_def Let_def split: prod.splits)

text \<open>
  C7. Writing an echo value through \<open>echo_property\<close> and reading it back gives exactly
  the value written, for each of the four values; \<open>"debug"\<close> is read back as \<open>"debug"\<close>,
  not as a level.
\<close>

theorem echo_write_then_read:
  "echo_property_get (Some (fst (echo_property_set instance v b))) = Inr (EchoValue v)"
  by (simp add: echo_property_get_def echo_property_set_def instance_logger_def Let_def
      split: prod.splits)




text \<open>
  C9. As stated, the stack-depth hint handed to \<open>Logger._log\<close> is the caller's hint
  (1 when none is given) plus one. On Python 3.11 and later the offset is two: a call
  without a hint is forwarded with hint 3.
\<close>

theorem stacklevel_plus_one_counterexample:
  "stacklevel no_kwargs = None \<and>
   log_calls (log True \<lparr>echo = EchoTrue, logger = Logger ''sqlalchemy.engine.Engine''\<rparr> INFO
       ''BEGIN'' [] no_kwargs fresh_backend) =
     [\<lparr>call_logger = Logger ''sqlalchemy.engine.Engine'', call_level = INFO,
       call_msg = ''BEGIN'', call_args = [], call_kwargs = no_kwargs\<lparr>stacklevel := Some 3\<rparr>\<rparr>] \<and>
   stacklevel (no_kwargs\<lparr>stacklevel := Some 3\<rparr>) \<noteq> Some (1 + 1)"
  by (simp add: log_def fresh_backend_def no_kwargs_def Logger_log_prim_def STACKLEVEL_def
      STACKLEVEL_OFFSET_def level_defs)

text \<open>
  C9, amended. When \<open>log\<close> emits, the call it makes to \<open>Logger._log\<close> carries the level,
  message and arguments unchanged, and as stack-depth hint the caller's hint (1 when none
  is given) plus \<open>STACKLEVEL_OFFSET\<close>: plus one before Python 3.11, plus two from
  Python 3.11 on.
\<close>

theorem stacklevel_hint_offset:
  assumes "manager_disable b < level" and "getEffectiveLevel self b \<le> level"
  shows "log_calls (log py311 self level msg args kw b) =
      log_calls b @
        [\<lparr>call_logger = logger self, call_level = level, call_msg = msg, call_args = args,
          call_kwargs = kw\<lparr>stacklevel :=
            Some ((case stacklevel kw of None \<Rightarrow> 1 | Some s \<Rightarrow> s) + (if py311 then 2 else 1))\<rparr>\<rparr>]"
  using assms
  by (simp add: log_def getEffectiveLevel_def Logger_log_prim_def STACKLEVEL_def
      STACKLEVEL_OFFSET_def Let_def)

theorem stacklevel_hint_offset_witness:
  "manager_disable fresh_backend < WARNING \<and>
   getEffectiveLevel \<lparr>echo = EchoDebug, logger = Logger ''sqlalchemy.pool.base.Pool''\<rparr> fresh_backend
     \<le> WARNING \<and>
   log_calls (log False \<lparr>echo = EchoDebug, logger = Logger ''sqlalchemy.pool.base.Pool''\<rparr> WARNING
       ''overflow'' [PyInt 5] (no_kwargs\<lparr>stacklevel := Some 2\<rparr>) fresh_backend) =
     [\<lparr>call_logger = Logger ''sqlalchemy.pool.base.Pool'', call_level = WARNING,
       call_msg = ''overflow'', call_args = [PyInt 5],
       call_kwargs = no_kwargs\<lparr>stacklevel := Some 3\<rparr>\<rparr>]"
proof -
  have h1: "manager_disable fresh_backend < WARNING"
    by (simp add: fresh_backend_def level_defs)
  have h2: "getEffectiveLevel \<lparr>echo = EchoDebug, logger = Logger ''sqlalchemy.pool.base.Pool''\<rparr>
      fresh_backend \<le> WARNING"
    by (simp add: getEffectiveLevel_def level_defs)
  from stacklevel_hint_offset [OF h1 h2, of False "''overflow''" "[PyInt 5]"
      "no_kwargs\<lparr>stacklevel := Some 2\<rparr>"] h1 h2
  show ?thesis by (simp add: fresh_backend_def no_kwargs_def)
qed

text \<open>
  C10. For a class that went through \<open>class_logger\<close>, \<open>_should_log_debug\<close> and
  \<open>_should_log_info\<close> answer with \<open>isEnabledFor\<close> of the class-wide logger and nothing
  else: the answer is the same for every instance of the class, whatever echo value
  \<open>instance_logger\<close> gave it. An instance with echo \<open>"debug"\<close> on a backend whose
  class-wide logger resolves to \<open>WARNING\<close> gets false from the injected helper, while
  the method of \<open>Identified\<close>, which asks the instance's own binding, answers true.
\<close>

theorem class_logger_helpers_ignore_instance_echo:
  "should_log_debug (self\<lparr>inst_class := fst (class_logger cls logged)\<rparr>) b =
     Inr (Logger_isEnabledFor (getLogger (qual_logger_name_for_cls cls)) DEBUG b) \<and>
   should_log_info (self\<lparr>inst_class := fst (class_logger cls logged)\<rparr>) b =
     Inr (Logger_isEnabledFor (getLogger (qual_logger_name_for_cls cls)) INFO b) \<and>
   should_log_debug
       (fst (instance_logger (self\<lparr>inst_class := fst (class_logger cls logged)\<rparr>) e b0)) b =
     should_log_debug (self\<lparr>inst_class := fst (class_logger cls logged)\<rparr>) b \<and>
   should_log_info
       (fst (instance_logger (self\<lparr>inst_class := fst (class_logger cls logged)\<rparr>) e b0)) b =
     should_log_info (self\<lparr>inst_class := fst (class_logger cls logged)\<rparr>) b \<and>
   should_log_debug
       (fst (instance_logger (new_instance (fst (class_logger Engine_class {})) None) EchoDebug
              fresh_backend)) fresh_backend = Inr False \<and>
   Identified_should_log_debug
       (fst (instance_logger (new_instance (fst (class_logger Engine_class {})) None) EchoDebug
              fresh_backend)) fresh_backend = Inr True"
proof -
  have inst: "inst_class (fst (instance_logger i e' b')) = inst_class i" for i e' b'
    by (simp add: instance_logger_def Let_def split: prod.splits)
  have slots: "cls_should_log_debug (fst (class_logger c l)) =
        class_logger_lambda (getLogger (qual_logger_name_for_cls c)) DEBUG"
      "cls_should_log_info (fst (class_logger c l)) =
        class_logger_lambda (getLogger (qual_logger_name_for_cls c)) INFO" for c l
    by (simp_all add: class_logger_def Let_def)
  have a: "should_log_debug (self\<lparr>inst_class := fst (class_logger cls logged)\<rparr>) b =
      Inr (Logger_isEnabledFor (getLogger (qual_logger_name_for_cls cls)) DEBUG b)"
    by (simp add: should_log_debug_def slots)
  have b: "should_log_info (self\<lparr>inst_class := fst (class_logger cls logged)\<rparr>) b =
      Inr (Logger_isEnabledFor (getLogger (qual_logger_name_for_cls cls)) INFO b)"
    by (simp add: should_log_info_def slots)
  have c: "should_log_debug
       (fst (instance_logger (self\<lparr>inst_class := fst (class_logger cls logged)\<rparr>) e b0)) b =
     should_log_debug (self\<lparr>inst_class := fst (class_logger cls logged)\<rparr>) b"
    by (simp add: should_log_debug_def inst slots)
  have d: "should_log_info
       (fst (instance_logger (self\<lparr>inst_class := fst (class_logger cls logged)\<rparr>) e b0)) b =
     should_log_info (self\<lparr>inst_class := fst (class_logger cls logged)\<rparr>) b"
    by (simp add: should_log_info_def inst slots)
  have e1: "should_log_debug
       (fst (instance_logger (new_instance (fst (class_logger Engine_class {})) None) EchoDebug
              fresh_backend)) fresh_backend = Inr False"
    by (simp add: should_log_debug_def inst new_instance_def slots Logger_isEnabledFor_def
        Logger_getEffectiveLevel_def fresh_backend_def level_defs)
  have e2: "Identified_should_log_debug
       (fst (instance_logger (new_instance (fst (class_logger Engine_class {})) None) EchoDebug
              fresh_backend)) fresh_backend = Inr True"
    by (simp add: Identified_should_log_debug_def self_logger_def instance_logger_def
        InstanceLogger_init_def new_instance_def Let_def isEnabledFor_def getEffectiveLevel_def
        fresh_backend_def level_defs split: prod.splits)
  from a b c d e1 e2 show ?thesis by blast
qed

end
